theory Spec2Isabelle
  imports Main
begin

section \<open>The image deployment handler (lambda/main.go)\<close>

text \<open>
  The handler is embedded as pure functions that return, next to their Go result, the
  list of calls they made to the outside world, in the order they made them. The outside
  world itself (secret store, reference parser, copy engine, job-control API, JSON
  decoder, process environment) is a record of functions, \<open>env\<close>: the handler's code
  is fixed, the collaborators' answers are arbitrary.
\<close>

subsection \<open>Data\<close>

text \<open>
  Modelled from the spec: the struct declarations \<open>Creds\<close> and \<open>UserParameters\<close>
  are in lambda/utils.go, which is not among the sources. The fields are the wire shape
  of spec section 6; main.go reads \<open>SecretArn\<close>, \<open>PlainText\<close>, \<open>SrcImage\<close>,
  \<open>DestImage\<close>, \<open>SrcCreds\<close> and \<open>DestCreds\<close> as Go strings and structs, whose
  zero value is the empty string.
\<close>

record Creds =
  PlainText :: string
  SecretArn :: string
  UsernameKey :: string
  PasswordKey :: string

text \<open>
  Modelled from the spec: \<open>UserParameters\<close> of lambda/utils.go, the inbound payload of
  spec section 6.
\<close>

record UserParameters =
  SrcImage :: string
  SrcCreds :: Creds
  DestImage :: string
  DestCreds :: Creds

text \<open>
  A Go \<open>error\<close> value. \<open>errorString\<close> is what \<open>fmt.Errorf\<close> and the external
  libraries return; the two resolution errors are the kinds spec section 4.1 names.
  Every error carries its text, which \<open>Error\<close> (Go's \<open>err.Error()\<close>) returns.
\<close>

datatype error =
    SecretNotFound string
  | MalformedSecret string
  | errorString string

fun Error :: "error \<Rightarrow> string" where
  "Error (SecretNotFound s) = s"
| "Error (MalformedSecret s) = s"
| "Error (errorString s) = s"

text \<open>cfn.Event, with the three fields cfnHandler reads. \<open>RequestType\<close> is a Go string type.\<close>

type_synonym RequestType = string

definition RequestCreate :: RequestType where
  "RequestCreate = ''Create''"

definition RequestUpdate :: RequestType where
  "RequestUpdate = ''Update''"

definition RequestDelete :: RequestType where
  "RequestDelete = ''Delete''"

record 'p cfn_Event =
  RequestType :: RequestType
  PhysicalResourceID :: string
  ResourceProperties :: 'p

text \<open>
  events.CodePipelineJobEvent, with the two fields codePipelineHandler reads:
  \<open>CodePipelineJob.ID\<close> and
  \<open>CodePipelineJob.Data.ActionConfiguration.Configuration.UserParameters\<close>.
\<close>

record CodePipelineJobEvent =
  CodePipelineJob_ID :: string
  Configuration_UserParameters :: string

text \<open>
  The calls a run makes, in order. \<open>'r\<close> is the engine's image reference type and
  \<open>'c\<close> its system context type; both are opaque to the handler.
\<close>

datatype ('r, 'c) effect =
    EnvRead string
  | LogLine string
  | SecretRead string
  | RefParse string
  | ContextBuild string string
  | PolicyCreate
  | PolicyDestroy
  | EngineCopy 'r 'r 'c 'c
  | JobFailure string string string
  | JobSuccess string string

fun is_EnvRead :: "('r, 'c) effect \<Rightarrow> bool" where
  "is_EnvRead (EnvRead n) = True"
| "is_EnvRead e = False"

fun is_SecretRead :: "('r, 'c) effect \<Rightarrow> bool" where
  "is_SecretRead (SecretRead a) = True"
| "is_SecretRead e = False"

fun is_RefParse :: "('r, 'c) effect \<Rightarrow> bool" where
  "is_RefParse (RefParse s) = True"
| "is_RefParse e = False"

fun is_EngineCopy :: "('r, 'c) effect \<Rightarrow> bool" where
  "is_EngineCopy (EngineCopy d s dc sc) = True"
| "is_EngineCopy e = False"

fun is_JobFailure :: "('r, 'c) effect \<Rightarrow> bool" where
  "is_JobFailure (JobFailure j m ty) = True"
| "is_JobFailure e = False"

fun is_JobSuccess :: "('r, 'c) effect \<Rightarrow> bool" where
  "is_JobSuccess (JobSuccess j m) = True"
| "is_JobSuccess e = False"


text \<open>A call to the job-control API, of either kind.\<close>

definition reported :: "('r, 'c) effect \<Rightarrow> bool" where
  "reported e = (is_JobFailure e \<or> is_JobSuccess e)"

text \<open>
  The collaborators. Each field is the answer of a call the handler makes:
  \<^item> \<open>os_Getenv\<close>: the process environment;
  \<^item> \<open>runtime_cfn_Event\<close>, \<open>runtime_CodePipelineJobEvent\<close>: how lambda.Start decodes
    an invocation payload into the started handler's event type (\<open>None\<close>: the payload
    does not decode and the handler is not called);
  \<^item> \<open>Dumps_cfn\<close>, \<open>Dumps_job\<close>, \<open>Sprint_v\<close>: the text of a value in a log line
    (\<open>Dumps\<close> of utils.go, and \<open>%v\<close> of fmt);
  \<^item> \<open>json_Marshal\<close>, \<open>json_Unmarshal\<close>: encoding/json; \<open>json_Unmarshal\<close> gives the
    structure the decoder leaves in a zero-initialised \<open>UserParameters\<close> and its error;
  \<^item> \<open>secret_store\<close>: the secret store's answer for an identifier, \<open>Inl\<close> the text
    of its failure; \<open>as_key_value\<close>: the reading of a secret's value as a key-value map;
  \<^item> \<open>alltransports_ParseImageName\<close>, \<open>signature_NewPolicyContext\<close>, \<open>copy_Image\<close>:
    the containers/image library;
  \<^item> \<open>NewSystemContext\<close>: \<open>NewImageOpts(imageName)\<close>, \<open>SetCreds(creds)\<close> and
    \<open>NewSystemContext()\<close> of utils.go, taken as one call;
  \<^item> \<open>PutJobFailureResult\<close>, \<open>PutJobSuccessResult\<close>: the job-control API's answer to
    a job identifier and a message.
\<close>

record ('p, 'r, 'c) env =
  os_Getenv :: "string \<Rightarrow> string"
  runtime_cfn_Event :: "string \<Rightarrow> 'p cfn_Event option"
  runtime_CodePipelineJobEvent :: "string \<Rightarrow> CodePipelineJobEvent option"
  Dumps_cfn :: "'p cfn_Event \<Rightarrow> string"
  Dumps_job :: "CodePipelineJobEvent \<Rightarrow> string"
  Sprint_v :: "UserParameters \<Rightarrow> string"
  json_Marshal :: "'p \<Rightarrow> string"
  json_Unmarshal :: "string \<Rightarrow> UserParameters \<times> error option"
  secret_store :: "string \<Rightarrow> string + string"
  as_key_value :: "string \<Rightarrow> string + (string \<rightharpoonup> string)"
  alltransports_ParseImageName :: "string \<Rightarrow> error + 'r"
  NewSystemContext :: "string \<Rightarrow> string \<Rightarrow> error + 'c"
  signature_NewPolicyContext :: "error option"
  copy_Image :: "'r \<Rightarrow> 'r \<Rightarrow> 'c \<Rightarrow> 'c \<Rightarrow> error option"
  PutJobFailureResult :: "string \<Rightarrow> string \<Rightarrow> error option"
  PutJobSuccessResult :: "string \<Rightarrow> string \<Rightarrow> error option"

subsection \<open>Sequencing calls that may fail\<close>

text \<open>
  A Go call \<open>x, err := f(); if err != nil { return err }\<close> followed by the rest of the
  function: the rest runs only on success and the calls of both are recorded in order.
\<close>

type_synonym ('a, 'r, 'c) outcome = "(error + 'a) \<times> ('r, 'c) effect list"

definition and_then ::
  "('a, 'r, 'c) outcome \<Rightarrow> ('a \<Rightarrow> ('b, 'r, 'c) outcome) \<Rightarrow> ('b, 'r, 'c) outcome" where
  "and_then m f =
     (case m of
        (Inl err, t) \<Rightarrow> (Inl err, t)
      | (Inr x, t) \<Rightarrow> (case f x of (r, t') \<Rightarrow> (r, t @ t')))"

text \<open>\<open>defer g()\<close>: \<open>g\<close>'s calls come after everything the rest of the function does.\<close>

definition deferred :: "('r, 'c) effect list \<Rightarrow> ('a, 'r, 'c) outcome \<Rightarrow> ('a, 'r, 'c) outcome" where
  "deferred d m = (fst m, snd m @ d)"

text \<open>The value of a Go \<open>error\<close> result: \<open>nil\<close> is \<open>None\<close>.\<close>

definition error_of :: "error + 'a \<Rightarrow> error option" where
  "error_of r = (case r of Inl err \<Rightarrow> Some err | Inr x \<Rightarrow> None)"

subsection \<open>Credential resolution\<close>

text \<open>
  Modelled from the spec: \<open>SecretsManager.GetSecret\<close> is in lambda/utils.go, which is not
  among the sources; \<open>split_secret\<close> is its split path. Spec section 4.1, steps 1 and 2: one read of the secret store; a
  secret that does not exist or is inaccessible is \<open>SecretNotFound\<close>; with both key
  names present the value is read as a key-value map, \<open>MalformedSecret\<close> if it is not
  one or lacks a named key, and the result is \<open><username-value>:<password-value>\<close>;
  with a secret identifier alone the result is the raw value. The spec names the kinds of
  the errors, not their text: here an error carries the message of the store or of the
  key-value reading, or the name of the key that is missing.
\<close>

definition split_secret :: "('p, 'r, 'c) env \<Rightarrow> Creds \<Rightarrow> string \<Rightarrow> error + string" where
  "split_secret env creds raw =
     (case as_key_value env raw of
        Inl msg \<Rightarrow> Inl (MalformedSecret msg)
      | Inr kv \<Rightarrow>
          (case kv (UsernameKey creds) of
             None \<Rightarrow> Inl (MalformedSecret (UsernameKey creds))
           | Some username \<Rightarrow>
               (case kv (PasswordKey creds) of
                  None \<Rightarrow> Inl (MalformedSecret (PasswordKey creds))
                | Some password \<Rightarrow> Inr (username @ '':'' @ password))))"

text \<open>
  Modelled from the spec: the whole-secret path of \<open>GetSecret\<close> (spec section 4.1,
  step 2), the raw value unmodified.
\<close>

definition whole_secret :: "string \<Rightarrow> error + string" where
  "whole_secret raw = Inr raw"

text \<open>
  Modelled from the spec: \<open>GetSecret\<close> itself (spec section 4.1), one read of the store
  and then the split path when both key names are present, the whole-secret path otherwise.
\<close>

definition GetSecret :: "('p, 'r, 'c) env \<Rightarrow> Creds \<Rightarrow> (string, 'r, 'c) outcome" where
  "GetSecret env creds =
     (case secret_store env (SecretArn creds) of
        Inl msg \<Rightarrow> Inl (SecretNotFound msg)
      | Inr raw \<Rightarrow>
          if UsernameKey creds \<noteq> [] \<and> PasswordKey creds \<noteq> []
          then split_secret env creds raw
          else whole_secret raw,
      [SecretRead (SecretArn creds)])"

text \<open>main.go, lines 213 to 223.\<close>

definition parseCreds :: "('p, 'r, 'c) env \<Rightarrow> Creds \<Rightarrow> (string, 'r, 'c) outcome" where
  "parseCreds env creds =
     (if SecretArn creds \<noteq> [] then GetSecret env creds
      else if PlainText creds \<noteq> [] then (Inr (PlainText creds), [])
      else (Inr [], []))"

subsection \<open>The copy\<close>

text \<open>The calls of handleImages to its collaborators, each with the record of the call.\<close>

definition log_Printf :: "string \<Rightarrow> (unit, 'r, 'c) outcome" where
  "log_Printf line = (Inr (), [LogLine line])"

definition ParseImageName :: "('p, 'r, 'c) env \<Rightarrow> string \<Rightarrow> ('r, 'r, 'c) outcome" where
  "ParseImageName env imgName = (alltransports_ParseImageName env imgName, [RefParse imgName])"

definition NewImageOpts_SetCreds_NewSystemContext ::
  "('p, 'r, 'c) env \<Rightarrow> string \<Rightarrow> string \<Rightarrow> ('c, 'r, 'c) outcome" where
  "NewImageOpts_SetCreds_NewSystemContext env imageName creds =
     (NewSystemContext env imageName creds, [ContextBuild imageName creds])"

text \<open>
  main.go, lines 187 to 190: the policy is fixed (accept anything), so the library's
  answer does not depend on an argument.
\<close>

definition newPolicyContext :: "('p, 'r, 'c) env \<Rightarrow> (unit, 'r, 'c) outcome" where
  "newPolicyContext env =
     (case signature_NewPolicyContext env of Some err \<Rightarrow> Inl err | None \<Rightarrow> Inr (),
      [PolicyCreate])"

text \<open>main.go, lines 169 to 178: the engine call and the wrapping of its error.\<close>

definition copy_Image_wrapped ::
  "('p, 'r, 'c) env \<Rightarrow> 'r \<Rightarrow> 'r \<Rightarrow> 'c \<Rightarrow> 'c \<Rightarrow> (unit, 'r, 'c) outcome" where
  "copy_Image_wrapped env destRef srcRef destCtx srcCtx =
     (case copy_Image env destRef srcRef destCtx srcCtx of
        Some err \<Rightarrow> Inl (errorString (''copy image failed: '' @ Error err))
      | None \<Rightarrow> Inr (),
      [EngineCopy destRef srcRef destCtx srcCtx])"

text \<open>
  main.go, lines 126 to 179. \<open>newTimeoutContext\<close> (lines 181 to 185) is the background
  context with a cancel function that does nothing: it makes no call and sets no deadline.
\<close>

definition handleImages ::
  "('p, 'r, 'c) env \<Rightarrow> UserParameters \<Rightarrow> error option \<times> ('r, 'c) effect list" where
  "handleImages env userParameters =
     (let r =
        and_then (parseCreds env (SrcCreds userParameters)) (\<lambda>srcCreds.
        and_then (parseCreds env (DestCreds userParameters)) (\<lambda>destCreds.
        and_then (log_Printf (''SrcImage: '' @ SrcImage userParameters @
                              '' DestImage: '' @ DestImage userParameters)) (\<lambda>_.
        and_then (ParseImageName env (SrcImage userParameters)) (\<lambda>srcRef.
        and_then (ParseImageName env (DestImage userParameters)) (\<lambda>destRef.
        and_then (NewImageOpts_SetCreds_NewSystemContext env (SrcImage userParameters) srcCreds) (\<lambda>srcCtx.
        and_then (NewImageOpts_SetCreds_NewSystemContext env (DestImage userParameters) destCreds) (\<lambda>destCtx.
        and_then (newPolicyContext env) (\<lambda>policyContext.
        deferred [PolicyDestroy] (copy_Image_wrapped env destRef srcRef destCtx srcCtx)))))))))
      in (error_of (fst r), snd r))"

subsection \<open>The two handlers\<close>

text \<open>
  main.go, lines 61 to 83. The result is Go's triple \<open>(physicalResourceID, data, err)\<close>;
  \<open>data\<close> is the empty map the handler makes and never fills. The errors of
  \<open>json.Marshal\<close> and \<open>json.Unmarshal\<close> are dropped by the source.
\<close>

definition cfnHandler ::
  "('p, 'r, 'c) env \<Rightarrow> 'p cfn_Event \<Rightarrow>
   (string \<times> (string \<rightharpoonup> string) \<times> error option) \<times> ('r, 'c) effect list" where
  "cfnHandler env event =
     (let physicalResourceID = PhysicalResourceID event;
          data = Map.empty;
          t0 = [LogLine (''Event: '' @ Dumps_cfn env event)]
      in if RequestType event = RequestDelete then ((physicalResourceID, data, None), t0)
         else if RequestType event = RequestCreate \<or> RequestType event = RequestUpdate then
           (let t1 = [LogLine (''Event: '' @ Dumps_cfn env event)];
                jsonString = json_Marshal env (ResourceProperties event);
                userParameters = fst (json_Unmarshal env jsonString);
                r = handleImages env userParameters
            in ((physicalResourceID, data, fst r), t0 @ t1 @ snd r))
         else ((physicalResourceID, data, None), t0))"

definition FailureTypeJobFailed :: string where
  "FailureTypeJobFailed = ''JobFailed''"

text \<open>
  main.go, lines 85 to 124. The Go function has no result, so the model's value is the
  list of its calls. The error of \<open>config.LoadDefaultConfig\<close> is formatted and dropped
  (line 91), and the client is built from whatever configuration came back; the client's
  answers are \<open>PutJobFailureResult\<close> and \<open>PutJobSuccessResult\<close> of \<open>env\<close>. Line 109
  logs the text of \<open>err\<close>, not of \<open>updateErr\<close>.
\<close>

definition codePipelineHandler ::
  "('p, 'r, 'c) env \<Rightarrow> CodePipelineJobEvent \<Rightarrow> ('r, 'c) effect list" where
  "codePipelineHandler env event =
     (let t0 = [LogLine (''Event log: '' @ Dumps_job env event)];
          userParameters = fst (json_Unmarshal env (Configuration_UserParameters event));
          t1 = [LogLine (''parameters obtained: '' @ Sprint_v env userParameters)];
          r = handleImages env userParameters
      in case fst r of
           Some err \<Rightarrow>
             t0 @ t1 @ snd r @
             [LogLine (''copy image failed: '' @ Error err),
              JobFailure (CodePipelineJob_ID event) (Error err) FailureTypeJobFailed] @
             (case PutJobFailureResult env (CodePipelineJob_ID event) (Error err) of
                Some updateErr \<Rightarrow> [LogLine (''putting job failure results failed: '' @ Error err)]
              | None \<Rightarrow> [])
         | None \<Rightarrow>
             (let summary = ''Copied image '' @ SrcImage userParameters @
                            '' to '' @ DestImage userParameters
              in t0 @ t1 @ snd r @
                 [JobSuccess (CodePipelineJob_ID event) summary] @
                 (case PutJobSuccessResult env (CodePipelineJob_ID event) summary of
                    Some err \<Rightarrow> [LogLine (''putting job success results failed: '' @ Error err)]
                  | None \<Rightarrow> [])))"

subsection \<open>Dispatch\<close>

text \<open>
  main.go, lines 31 to 46. \<open>lambda.Start\<close> serves the invocations the process receives,
  one after the other, with the one handler it was started with; the run is the list of
  the invocations' payloads. \<open>cfn.LambdaWrap\<close> delivers cfnHandler's result to the
  provisioning service; that delivery is the library's and is not recorded. \<open>init\<close>
  (lines 48 to 59) sets the level of the logrus logger from \<open>LOG_LEVEL\<close> before
  \<open>main\<close> runs; it reads nothing else and nothing in main.go logs through logrus
  afterwards, so it is left out.
\<close>

definition lambda_Start ::
  "(string \<Rightarrow> ('r, 'c) effect list) \<Rightarrow> string list \<Rightarrow> ('r, 'c) effect list" where
  "lambda_Start handler payloads = concat (map handler payloads)"

definition customResource :: "('p, 'r, 'c) env \<Rightarrow> string list \<Rightarrow> ('r, 'c) effect list" where
  "customResource env payloads =
     lambda_Start
       (\<lambda>payload. case runtime_cfn_Event env payload of
                     None \<Rightarrow> []
                   | Some event \<Rightarrow> snd (cfnHandler env event))
       payloads"

definition codePipeline :: "('p, 'r, 'c) env \<Rightarrow> string list \<Rightarrow> ('r, 'c) effect list" where
  "codePipeline env payloads =
     lambda_Start
       (\<lambda>payload. case runtime_CodePipelineJobEvent env payload of
                     None \<Rightarrow> []
                   | Some event \<Rightarrow> codePipelineHandler env event)
       payloads"

definition main :: "('p, 'r, 'c) env \<Rightarrow> string list \<Rightarrow> ('r, 'c) effect list" where
  "main env payloads =
     (let invoker = os_Getenv env ''INVOKER''
      in EnvRead ''INVOKER'' #
         (if invoker = ''CODEPIPELINE'' then codePipeline env payloads
          else customResource env payloads))"

subsection \<open>A concrete world\<close>

text \<open>
  One environment on which the theorems below are run. Its secret store holds the two
  secrets of the scenarios of spec section 8 (\<open>dockerhub\<close>, a raw token, and
  \<open>kv-secret\<close>, a key-value secret); its reference parser knows the \<open>docker\<close> and
  \<open>s3\<close> transports; its engine fails on one image and copies every other; its JSON
  decoder knows six payloads by name, reports a type error on a seventh while filling the
  fields it could read, and fails on every other text, leaving the zero value behind.
\<close>

definition zero_Creds :: Creds where
  "zero_Creds = \<lparr>PlainText = [], SecretArn = [], UsernameKey = [], PasswordKey = []\<rparr>"

definition zero_UserParameters :: UserParameters where
  "zero_UserParameters =
     \<lparr>SrcImage = [], SrcCreds = zero_Creds, DestImage = [], DestCreds = zero_Creds\<rparr>"

definition scenario_UserParameters :: UserParameters where
  "scenario_UserParameters =
     \<lparr>SrcImage = ''docker://repo/app:v1'',
      SrcCreds = zero_Creds\<lparr>PlainText := ''u:p''\<rparr>,
      DestImage = ''docker://other/app:v1'',
      DestCreds = zero_Creds\<rparr>"

definition example_Unmarshal :: "string \<Rightarrow> UserParameters \<times> error option" where
  "example_Unmarshal payload =
     (if payload = ''scenario'' then (scenario_UserParameters, None)
      else if payload = ''broken'' then
        (scenario_UserParameters\<lparr>SrcImage := ''docker://repo/broken:v1''\<rparr>, None)
      else if payload = ''ftp'' then
        (scenario_UserParameters\<lparr>SrcImage := ''ftp://host/path''\<rparr>, None)
      else if payload = ''ftp-missing-secret'' then
        (scenario_UserParameters
           \<lparr>SrcImage := ''ftp://host/path'',
            SrcCreds := zero_Creds\<lparr>SecretArn := ''missing''\<rparr>\<rparr>, None)
      else if payload = ''ftp-missing-dest-secret'' then
        (scenario_UserParameters
           \<lparr>SrcImage := ''ftp://host/path'',
            DestCreds := zero_Creds\<lparr>SecretArn := ''missing''\<rparr>\<rparr>, None)
      else if payload = ''{}'' then (zero_UserParameters, None)
      else if payload = ''type-mismatch'' then
        (scenario_UserParameters\<lparr>SrcCreds := zero_Creds\<rparr>,
         Some (errorString ''json: cannot unmarshal number into Go struct field''))
      else (zero_UserParameters, Some (errorString ''unexpected end of JSON input'')))"

definition example_ParseImageName :: "string \<Rightarrow> error + string" where
  "example_ParseImageName imgName =
     (if take 9 imgName = ''docker://'' \<or> take 5 imgName = ''s3://'' then Inr imgName
      else Inl (errorString (''Invalid image name '' @ imgName)))"

definition example_env :: "(string, string, string \<times> string) env" where
  "example_env =
     \<lparr>os_Getenv = (\<lambda>name. if name = ''INVOKER'' then ''CODEPIPELINE'' else []),
      runtime_cfn_Event = (\<lambda>payload.
        Some \<lparr>RequestType = RequestCreate, PhysicalResourceID = ''copy-1'',
              ResourceProperties = payload\<rparr>),
      runtime_CodePipelineJobEvent = (\<lambda>payload.
        Some \<lparr>CodePipelineJob_ID = ''job-1'', Configuration_UserParameters = payload\<rparr>),
      Dumps_cfn = (\<lambda>event. RequestType event @ '' '' @ ResourceProperties event),
      Dumps_job = (\<lambda>event. Configuration_UserParameters event),
      Sprint_v = (\<lambda>userParameters. SrcImage userParameters @ '' '' @ DestImage userParameters),
      json_Marshal = (\<lambda>properties. properties),
      json_Unmarshal = example_Unmarshal,
      secret_store = (\<lambda>arn.
        if arn = ''dockerhub'' then Inr ''token123''
        else if arn = ''kv-secret'' then Inr ''{u: alice, p: s3cr3t}''
        else Inl ''secret not found''),
      as_key_value = (\<lambda>raw.
        if raw = ''{u: alice, p: s3cr3t}''
        then Inr [''u'' \<mapsto> ''alice'', ''p'' \<mapsto> ''s3cr3t'']
        else Inl ''not a key-value map''),
      alltransports_ParseImageName = example_ParseImageName,
      NewSystemContext = (\<lambda>imageName creds. Inr (imageName, creds)),
      signature_NewPolicyContext = None,
      copy_Image = (\<lambda>destRef srcRef destCtx srcCtx.
        if srcRef = ''docker://repo/broken:v1'' then Some (errorString ''manifest unknown'')
        else None),
      PutJobFailureResult = (\<lambda>jobId message. None),
      PutJobSuccessResult = (\<lambda>jobId summary. None)\<rparr>"

definition job_event :: "string \<Rightarrow> CodePipelineJobEvent" where
  "job_event payload = \<lparr>CodePipelineJob_ID = ''job-1'', Configuration_UserParameters = payload\<rparr>"

definition cfn_event :: "RequestType \<Rightarrow> string \<Rightarrow> string cfn_Event" where
  "cfn_event requestType payload =
     \<lparr>RequestType = requestType, PhysicalResourceID = ''copy-1'', ResourceProperties = payload\<rparr>"

section \<open>Properties\<close>

lemmas example_defs = example_env_def example_Unmarshal_def example_ParseImageName_def
  zero_Creds_def zero_UserParameters_def scenario_UserParameters_def job_event_def cfn_event_def
  RequestCreate_def RequestUpdate_def RequestDelete_def FailureTypeJobFailed_def

lemmas step_defs = log_Printf_def ParseImageName_def
  NewImageOpts_SetCreds_NewSystemContext_def newPolicyContext_def copy_Image_wrapped_def

subsection \<open>Sequencing\<close>

lemma and_then_Inl: "fst m = Inl err \<Longrightarrow> and_then m f = (Inl err, snd m)"
  by (cases m) (simp add: and_then_def)

lemma and_then_Inr: "fst m = Inr x \<Longrightarrow> and_then m f = (fst (f x), snd m @ snd (f x))"
  by (cases m) (simp add: and_then_def split: prod.splits)

lemma fst_and_then:
  "fst (and_then m f) = (case fst m of Inl err \<Rightarrow> Inl err | Inr x \<Rightarrow> fst (f x))"
  by (cases "fst m") (simp_all add: and_then_Inl and_then_Inr)

lemma snd_and_then:
  "snd (and_then m f) = (case fst m of Inl err \<Rightarrow> snd m | Inr x \<Rightarrow> snd m @ snd (f x))"
  by (cases "fst m") (simp_all add: and_then_Inl and_then_Inr)

lemma and_then_all:
  assumes "list_all P (snd m)" and "\<And>x. list_all P (snd (f x))"
  shows "list_all P (snd (and_then m f))"
proof (cases "fst m")
  case (Inl err)
  then show ?thesis using assms(1) by (simp add: and_then_Inl)
next
  case (Inr x)
  then show ?thesis using assms(1) assms(2) [of x] by (simp add: and_then_Inr)
qed

subsection \<open>What handleImages returns and what it calls\<close>

lemma parseCreds_calls:
  "snd (parseCreds env creds) =
     (if SecretArn creds \<noteq> [] then [SecretRead (SecretArn creds)] else [])"
  by (simp add: parseCreds_def GetSecret_def)

lemma parseCreds_member:
  "e \<in> set (snd (parseCreds env creds)) \<Longrightarrow> e = SecretRead (SecretArn creds)"
  by (simp add: parseCreds_calls split: if_splits)

lemma parseCreds_no_EngineCopy: "filter is_EngineCopy (snd (parseCreds env creds)) = []"
  by (simp add: parseCreds_calls)

text \<open>The result of handleImages is the error of the first step that fails.\<close>

lemma fst_handleImages:
  "fst (handleImages env up) =
     (case fst (parseCreds env (SrcCreds up)) of Inl err \<Rightarrow> Some err | Inr srcCreds \<Rightarrow>
      case fst (parseCreds env (DestCreds up)) of Inl err \<Rightarrow> Some err | Inr destCreds \<Rightarrow>
      case alltransports_ParseImageName env (SrcImage up) of Inl err \<Rightarrow> Some err | Inr srcRef \<Rightarrow>
      case alltransports_ParseImageName env (DestImage up) of Inl err \<Rightarrow> Some err | Inr destRef \<Rightarrow>
      case NewSystemContext env (SrcImage up) srcCreds of Inl err \<Rightarrow> Some err | Inr srcCtx \<Rightarrow>
      case NewSystemContext env (DestImage up) destCreds of Inl err \<Rightarrow> Some err | Inr destCtx \<Rightarrow>
      case signature_NewPolicyContext env of Some err \<Rightarrow> Some err | None \<Rightarrow>
      case copy_Image env destRef srcRef destCtx srcCtx of
        Some err \<Rightarrow> Some (errorString (''copy image failed: '' @ Error err))
      | None \<Rightarrow> None)"
  by (simp add: handleImages_def Let_def fst_and_then deferred_def error_of_def step_defs
      split: sum.splits option.splits)

text \<open>Its calls are those of the steps up to and including the first that fails.\<close>

lemma snd_handleImages:
  "snd (handleImages env up) =
     snd (parseCreds env (SrcCreds up)) @
     (case fst (parseCreds env (SrcCreds up)) of Inl err \<Rightarrow> [] | Inr srcCreds \<Rightarrow>
      snd (parseCreds env (DestCreds up)) @
     (case fst (parseCreds env (DestCreds up)) of Inl err \<Rightarrow> [] | Inr destCreds \<Rightarrow>
      [LogLine (''SrcImage: '' @ SrcImage up @ '' DestImage: '' @ DestImage up),
       RefParse (SrcImage up)] @
     (case alltransports_ParseImageName env (SrcImage up) of Inl err \<Rightarrow> [] | Inr srcRef \<Rightarrow>
      [RefParse (DestImage up)] @
     (case alltransports_ParseImageName env (DestImage up) of Inl err \<Rightarrow> [] | Inr destRef \<Rightarrow>
      [ContextBuild (SrcImage up) srcCreds] @
     (case NewSystemContext env (SrcImage up) srcCreds of Inl err \<Rightarrow> [] | Inr srcCtx \<Rightarrow>
      [ContextBuild (DestImage up) destCreds] @
     (case NewSystemContext env (DestImage up) destCreds of Inl err \<Rightarrow> [] | Inr destCtx \<Rightarrow>
      [PolicyCreate] @
     (case signature_NewPolicyContext env of Some err \<Rightarrow> [] | None \<Rightarrow>
      [EngineCopy destRef srcRef destCtx srcCtx, PolicyDestroy])))))))"
  by (simp add: handleImages_def Let_def fst_and_then snd_and_then deferred_def step_defs
      split: sum.splits option.splits)

text \<open>handleImages neither reads the process environment nor calls the job-control API.\<close>

lemma handleImages_inner:
  "list_all (\<lambda>e. \<not> is_EnvRead e \<and> \<not> is_JobFailure e \<and> \<not> is_JobSuccess e)
     (snd (handleImages env up))"
  unfolding handleImages_def Let_def snd_conv
  by (intro and_then_all) (simp_all add: parseCreds_calls step_defs deferred_def)

lemma handleImages_no_JobSuccess: "filter is_JobSuccess (snd (handleImages env up)) = []"
  using handleImages_inner [of env up] by (auto simp: filter_empty_conv list_all_iff)

lemma handleImages_no_JobFailure: "filter is_JobFailure (snd (handleImages env up)) = []"
  using handleImages_inner [of env up] by (auto simp: filter_empty_conv list_all_iff)

lemma handleImages_no_EnvRead: "filter is_EnvRead (snd (handleImages env up)) = []"
  using handleImages_inner [of env up] by (auto simp: filter_empty_conv list_all_iff)


text \<open>
  handleImages returns no error exactly when it reached the engine and the engine
  returned none: that is what "the copy succeeds" means below.
\<close>

lemma handleImages_None_iff:
  "fst (handleImages env up) = None \<longleftrightarrow>
   (\<exists>d s dc sc. EngineCopy d s dc sc \<in> set (snd (handleImages env up)) \<and>
                copy_Image env d s dc sc = None)"
  unfolding fst_handleImages snd_handleImages
  by (auto split: sum.splits option.splits dest: parseCreds_member)

subsection \<open>Credential resolution\<close>

text \<open>
  C1. Resolution follows a fixed precedence. A descriptor with a secret identifier
  resolves through the secret store, whatever its plaintext field holds: the result is
  GetSecret's, with one read of the store, by the split path when both key names are
  present and by the whole-secret path otherwise. With no secret identifier and a
  plaintext value, the result is the plaintext value unchanged and nothing is read. With
  neither, the result is the empty credential, no error, and nothing is read.
\<close>

theorem parseCreds_precedence:
  "(SecretArn creds \<noteq> [] \<longrightarrow>
      parseCreds env creds = GetSecret env creds \<and>
      snd (parseCreds env creds) = [SecretRead (SecretArn creds)] \<and>
      (\<forall>raw. secret_store env (SecretArn creds) = Inr raw \<longrightarrow>
         fst (parseCreds env creds) =
           (if UsernameKey creds \<noteq> [] \<and> PasswordKey creds \<noteq> []
            then split_secret env creds raw else whole_secret raw))) \<and>
   (SecretArn creds = [] \<and> PlainText creds \<noteq> [] \<longrightarrow>
      parseCreds env creds = (Inr (PlainText creds), [])) \<and>
   (SecretArn creds = [] \<and> PlainText creds = [] \<longrightarrow>
      parseCreds env creds = (Inr [], []))"
  by (simp add: parseCreds_def GetSecret_def)

theorem parseCreds_precedence_witness:
  "parseCreds example_env (zero_Creds\<lparr>SecretArn := ''dockerhub'', PlainText := ''u:p''\<rparr>) =
     (Inr ''token123'', [SecretRead ''dockerhub'']) \<and>
   parseCreds example_env
     (zero_Creds\<lparr>SecretArn := ''kv-secret'', UsernameKey := ''u'', PasswordKey := ''p'',
                   PlainText := ''u:p''\<rparr>) =
     (Inr ''alice:s3cr3t'', [SecretRead ''kv-secret'']) \<and>
   parseCreds example_env (zero_Creds\<lparr>PlainText := ''u:p''\<rparr>) = (Inr ''u:p'', []) \<and>
   parseCreds example_env zero_Creds = (Inr [], [])"
  using parseCreds_precedence
      [of "zero_Creds\<lparr>SecretArn := ''dockerhub'', PlainText := ''u:p''\<rparr>" example_env]
    parseCreds_precedence
      [of "zero_Creds\<lparr>SecretArn := ''kv-secret'', UsernameKey := ''u'', PasswordKey := ''p'',
                         PlainText := ''u:p''\<rparr>" example_env]
    parseCreds_precedence [of "zero_Creds\<lparr>PlainText := ''u:p''\<rparr>" example_env]
    parseCreds_precedence [of zero_Creds example_env]
  by (simp add: zero_Creds_def example_env_def GetSecret_def split_secret_def whole_secret_def)

text \<open>
  C2. A descriptor with a secret identifier and both key names makes exactly one read of
  the secret store. When the value read is a key-value map holding both named keys, the
  result is the username value, a colon and the password value. When the value read is
  not a key-value map, or lacks one of the named keys, the result is a MalformedSecret
  error.
\<close>

theorem parseCreds_split_secret:
  assumes "SecretArn creds \<noteq> []" and "UsernameKey creds \<noteq> []" and "PasswordKey creds \<noteq> []"
  shows "snd (parseCreds env creds) = [SecretRead (SecretArn creds)] \<and>
         length (filter is_SecretRead (snd (parseCreds env creds))) = 1 \<and>
         (\<forall>raw kv username password.
            secret_store env (SecretArn creds) = Inr raw \<and> as_key_value env raw = Inr kv \<and>
            kv (UsernameKey creds) = Some username \<and> kv (PasswordKey creds) = Some password \<longrightarrow>
            fst (parseCreds env creds) = Inr (username @ '':'' @ password)) \<and>
         (\<forall>raw. secret_store env (SecretArn creds) = Inr raw \<and>
            (isl (as_key_value env raw) \<or>
             (\<exists>kv. as_key_value env raw = Inr kv \<and>
                   (kv (UsernameKey creds) = None \<or> kv (PasswordKey creds) = None))) \<longrightarrow>
            (\<exists>detail. fst (parseCreds env creds) = Inl (MalformedSecret detail)))"
  using assms
  by (auto simp: parseCreds_def GetSecret_def split_secret_def isl_def split: option.splits)

theorem parseCreds_split_secret_witness:
  "SecretArn (zero_Creds\<lparr>SecretArn := ''kv-secret'', UsernameKey := ''u'', PasswordKey := ''p''\<rparr>)
     \<noteq> [] \<and>
   parseCreds example_env
     (zero_Creds\<lparr>SecretArn := ''kv-secret'', UsernameKey := ''u'', PasswordKey := ''p''\<rparr>) =
     (Inr ''alice:s3cr3t'', [SecretRead ''kv-secret'']) \<and>
   parseCreds example_env
     (zero_Creds\<lparr>SecretArn := ''kv-secret'', UsernameKey := ''u'', PasswordKey := ''q''\<rparr>) =
     (Inl (MalformedSecret ''q''), [SecretRead ''kv-secret'']) \<and>
   parseCreds example_env
     (zero_Creds\<lparr>SecretArn := ''dockerhub'', UsernameKey := ''u'', PasswordKey := ''p''\<rparr>) =
     (Inl (MalformedSecret ''not a key-value map''), [SecretRead ''dockerhub''])"
  using parseCreds_split_secret
      [of "zero_Creds\<lparr>SecretArn := ''kv-secret'', UsernameKey := ''u'', PasswordKey := ''p''\<rparr>"
          example_env]
    parseCreds_split_secret
      [of "zero_Creds\<lparr>SecretArn := ''kv-secret'', UsernameKey := ''u'', PasswordKey := ''q''\<rparr>"
          example_env]
    parseCreds_split_secret
      [of "zero_Creds\<lparr>SecretArn := ''dockerhub'', UsernameKey := ''u'', PasswordKey := ''p''\<rparr>"
          example_env]
  by (simp add: zero_Creds_def example_env_def parseCreds_def GetSecret_def split_secret_def)

subsection \<open>The provisioning flow\<close>

text \<open>
  C3. On a Delete event cfnHandler returns the physical resource identifier it was given,
  the empty data map and no error. Its only call is the log line of the event: it reads
  no secret, parses no reference and does not call the engine.
\<close>

theorem cfnHandler_delete_is_noop:
  assumes "RequestType event = RequestDelete"
  shows "cfnHandler env event =
           ((PhysicalResourceID event, Map.empty, None),
            [LogLine (''Event: '' @ Dumps_cfn env event)]) \<and>
         filter is_SecretRead (snd (cfnHandler env event)) = [] \<and>
         filter is_RefParse (snd (cfnHandler env event)) = [] \<and>
         filter is_EngineCopy (snd (cfnHandler env event)) = []"
  using assms by (simp add: cfnHandler_def)

theorem cfnHandler_delete_is_noop_witness:
  "RequestType (cfn_event RequestDelete ''scenario'') = RequestDelete \<and>
   cfnHandler example_env (cfn_event RequestDelete ''scenario'') =
     ((''copy-1'', Map.empty, None), [LogLine ''Event: Delete scenario''])"
  using cfnHandler_delete_is_noop [of "cfn_event RequestDelete ''scenario''" example_env]
  by (simp add: cfn_event_def example_env_def RequestDelete_def)

subsection \<open>The pipeline flow\<close>

text \<open>
  C4. When the copy of a pipeline-job invocation succeeds (the engine is called and
  returns no error), handleImages returns no error and codePipelineHandler calls the
  job-success API exactly once, with the job's identifier and the summary
  "Copied image SrcImage to DestImage", and never calls the job-failure API.
\<close>

theorem codePipelineHandler_reports_success:
  assumes "userParameters = fst (json_Unmarshal env (Configuration_UserParameters event))"
    and "EngineCopy destRef srcRef destCtx srcCtx \<in> set (snd (handleImages env userParameters))"
    and "copy_Image env destRef srcRef destCtx srcCtx = None"
  shows "fst (handleImages env userParameters) = None \<and>
         filter is_JobSuccess (codePipelineHandler env event) =
           [JobSuccess (CodePipelineJob_ID event)
              (''Copied image '' @ SrcImage userParameters @ '' to '' @ DestImage userParameters)] \<and>
         filter is_JobFailure (codePipelineHandler env event) = []"
proof -
  have copied: "fst (handleImages env userParameters) = None"
    using assms(2,3) handleImages_None_iff [of env userParameters] by blast
  show ?thesis
    using assms(1) copied
    by (simp add: codePipelineHandler_def Let_def handleImages_no_JobSuccess
        handleImages_no_JobFailure split: option.splits)
qed

theorem codePipelineHandler_reports_success_witness:
  "EngineCopy ''docker://other/app:v1'' ''docker://repo/app:v1''
     (''docker://other/app:v1'', []) (''docker://repo/app:v1'', ''u:p'')
     \<in> set (snd (handleImages example_env scenario_UserParameters)) \<and>
   copy_Image example_env ''docker://other/app:v1'' ''docker://repo/app:v1''
     (''docker://other/app:v1'', []) (''docker://repo/app:v1'', ''u:p'') = None \<and>
   fst (handleImages example_env scenario_UserParameters) = None \<and>
   filter is_JobSuccess (codePipelineHandler example_env (job_event ''scenario'')) =
     [JobSuccess ''job-1'' ''Copied image docker://repo/app:v1 to docker://other/app:v1''] \<and>
   filter is_JobFailure (codePipelineHandler example_env (job_event ''scenario'')) = []"
proof -
  have decoded: "scenario_UserParameters =
      fst (json_Unmarshal example_env (Configuration_UserParameters (job_event ''scenario'')))"
    by (simp add: example_env_def example_Unmarshal_def job_event_def)
  have called: "EngineCopy ''docker://other/app:v1'' ''docker://repo/app:v1''
     (''docker://other/app:v1'', []) (''docker://repo/app:v1'', ''u:p'')
     \<in> set (snd (handleImages example_env scenario_UserParameters))"
    by (simp add: snd_handleImages parseCreds_def example_defs)
  have answer: "copy_Image example_env ''docker://other/app:v1'' ''docker://repo/app:v1''
     (''docker://other/app:v1'', []) (''docker://repo/app:v1'', ''u:p'') = None"
    by (simp add: example_env_def)
  show ?thesis
    using called answer codePipelineHandler_reports_success [OF decoded called answer]
    by (simp add: job_event_def scenario_UserParameters_def)
qed

text \<open>
  C5. When handleImages fails in a pipeline-job invocation (the copy, or the credential
  resolution, reference parsing or context building before it), codePipelineHandler calls
  the job-failure API exactly once, with the job's identifier, the error's text as the
  failure message and the type JobFailed, and never calls the job-success API.
\<close>

theorem codePipelineHandler_reports_failure:
  assumes "userParameters = fst (json_Unmarshal env (Configuration_UserParameters event))"
    and "fst (handleImages env userParameters) = Some err"
  shows "filter is_JobFailure (codePipelineHandler env event) =
           [JobFailure (CodePipelineJob_ID event) (Error err) FailureTypeJobFailed] \<and>
         filter is_JobSuccess (codePipelineHandler env event) = []"
  using assms
  by (simp add: codePipelineHandler_def Let_def handleImages_no_JobSuccess
      handleImages_no_JobFailure split: option.splits)

theorem codePipelineHandler_reports_failure_witness:
  "fst (handleImages example_env (fst (example_Unmarshal ''broken''))) =
     Some (errorString ''copy image failed: manifest unknown'') \<and>
   filter is_JobFailure (codePipelineHandler example_env (job_event ''broken'')) =
     [JobFailure ''job-1'' ''copy image failed: manifest unknown'' ''JobFailed''] \<and>
   filter is_JobSuccess (codePipelineHandler example_env (job_event ''broken'')) = []"
proof -
  have decoded: "fst (example_Unmarshal ''broken'') =
      fst (json_Unmarshal example_env (Configuration_UserParameters (job_event ''broken'')))"
    by (simp add: example_env_def job_event_def)
  have failed: "fst (handleImages example_env (fst (example_Unmarshal ''broken''))) =
      Some (errorString ''copy image failed: manifest unknown'')"
    by (simp add: fst_handleImages parseCreds_def example_defs)
  show ?thesis
    using failed codePipelineHandler_reports_failure [OF decoded failed]
    by (simp add: job_event_def FailureTypeJobFailed_def)
qed

subsection \<open>The copy\<close>

text \<open>
  C6. Whenever the engine is called and returns an error, handleImages returns the error
  whose text is "copy image failed: " followed by the engine's error text, and the engine
  is called exactly once: there is no retry.
\<close>

theorem handleImages_wraps_engine_error:
  assumes "EngineCopy destRef srcRef destCtx srcCtx \<in> set (snd (handleImages env userParameters))"
    and "copy_Image env destRef srcRef destCtx srcCtx = Some err"
  shows "fst (handleImages env userParameters) =
           Some (errorString (''copy image failed: '' @ Error err)) \<and>
         map_option Error (fst (handleImages env userParameters)) =
           Some (''copy image failed: '' @ Error err) \<and>
         length (filter is_EngineCopy (snd (handleImages env userParameters))) = 1"
  using assms
  unfolding fst_handleImages snd_handleImages
  by (auto simp: parseCreds_no_EngineCopy split: sum.splits option.splits dest: parseCreds_member)

theorem handleImages_wraps_engine_error_witness:
  "EngineCopy ''docker://other/app:v1'' ''docker://repo/broken:v1''
     (''docker://other/app:v1'', []) (''docker://repo/broken:v1'', ''u:p'')
     \<in> set (snd (handleImages example_env (fst (example_Unmarshal ''broken'')))) \<and>
   copy_Image example_env ''docker://other/app:v1'' ''docker://repo/broken:v1''
     (''docker://other/app:v1'', []) (''docker://repo/broken:v1'', ''u:p'') =
     Some (errorString ''manifest unknown'') \<and>
   fst (handleImages example_env (fst (example_Unmarshal ''broken''))) =
     Some (errorString ''copy image failed: manifest unknown'') \<and>
   length (filter is_EngineCopy
     (snd (handleImages example_env (fst (example_Unmarshal ''broken''))))) = 1"
proof -
  have called: "EngineCopy ''docker://other/app:v1'' ''docker://repo/broken:v1''
     (''docker://other/app:v1'', []) (''docker://repo/broken:v1'', ''u:p'')
     \<in> set (snd (handleImages example_env (fst (example_Unmarshal ''broken''))))"
    by (simp add: snd_handleImages parseCreds_def example_defs)
  have answer: "copy_Image example_env ''docker://other/app:v1'' ''docker://repo/broken:v1''
     (''docker://other/app:v1'', []) (''docker://repo/broken:v1'', ''u:p'') =
     Some (errorString ''manifest unknown'')"
    by (simp add: example_env_def)
  show ?thesis
    using called answer handleImages_wraps_engine_error [OF called answer] by simp
qed

lemma cfnHandler_EngineCopy:
  "RequestType event = RequestCreate \<or> RequestType event = RequestUpdate \<Longrightarrow>
   filter is_EngineCopy (snd (cfnHandler env event)) =
     filter is_EngineCopy
       (snd (handleImages env
               (fst (json_Unmarshal env (json_Marshal env (ResourceProperties event))))))"
  by (auto simp: cfnHandler_def Let_def RequestCreate_def RequestUpdate_def RequestDelete_def)

lemma cfnHandler_error:
  "RequestType event = RequestCreate \<or> RequestType event = RequestUpdate \<Longrightarrow>
   snd (snd (fst (cfnHandler env event))) =
     fst (handleImages env
            (fst (json_Unmarshal env (json_Marshal env (ResourceProperties event)))))"
  by (auto simp: cfnHandler_def Let_def RequestCreate_def RequestUpdate_def RequestDelete_def)

lemma codePipelineHandler_EngineCopy:
  "filter is_EngineCopy (codePipelineHandler env job) =
     filter is_EngineCopy
       (snd (handleImages env (fst (json_Unmarshal env (Configuration_UserParameters job)))))"
  by (simp add: codePipelineHandler_def Let_def split: option.splits)

lemma codePipelineHandler_JobFailure:
  "fst (handleImages env (fst (json_Unmarshal env (Configuration_UserParameters job)))) = Some err
   \<Longrightarrow> filter is_JobFailure (codePipelineHandler env job) =
         [JobFailure (CodePipelineJob_ID job) (Error err) FailureTypeJobFailed] \<and>
       filter is_JobSuccess (codePipelineHandler env job) = []"
  by (simp add: codePipelineHandler_def Let_def handleImages_no_JobSuccess
      handleImages_no_JobFailure)

text \<open>
  C7, as stated, fails, in two ways. The credentials are resolved before the references
  are parsed: here the source reference is \<open>ftp://host/path\<close>, which the parser rejects,
  and the source credential names a secret the store does not hold, and handleImages fails
  with the resolution error, not with the parser's error, the reference never being
  parsed. And a Delete event does not look at its references: with the same rejected
  source reference in its properties, cfnHandler returns no error.
\<close>

theorem resolution_error_precedes_reference_error:
  "alltransports_ParseImageName example_env
     (SrcImage (fst (example_Unmarshal ''ftp-missing-secret''))) =
     Inl (errorString ''Invalid image name ftp://host/path'') \<and>
   handleImages example_env (fst (example_Unmarshal ''ftp-missing-secret'')) =
     (Some (SecretNotFound ''secret not found''), [SecretRead ''missing'']) \<and>
   alltransports_ParseImageName example_env
     (SrcImage (fst (json_Unmarshal example_env
        (json_Marshal example_env (ResourceProperties (cfn_event RequestDelete ''ftp'')))))) =
     Inl (errorString ''Invalid image name ftp://host/path'') \<and>
   snd (snd (fst (cfnHandler example_env (cfn_event RequestDelete ''ftp'')))) = None"
  by (simp add: example_defs fst_handleImages snd_handleImages parseCreds_def GetSecret_def
      cfnHandler_def prod_eq_iff)

text \<open>
  C7, amended. When the parser rejects the source or the destination reference of an
  invocation that runs the copy (a Create or Update event, or a pipeline job), handleImages
  fails and the engine is never called. The error is that of the first step that fails:
  the source credential's resolution error, else the destination credential's, else (both
  credentials resolved) the parser's error for the source reference if that is rejected,
  for the destination reference otherwise. cfnHandler returns that error on a Create or
  Update event, and codePipelineHandler reports it with one job-failure call and no
  job-success call; neither calls the engine.
\<close>

theorem handleImages_rejects_unparsed_reference:
  assumes "isl (alltransports_ParseImageName env (SrcImage up)) \<or>
           isl (alltransports_ParseImageName env (DestImage up))"
  shows "fst (handleImages env up) \<noteq> None \<and>
         filter is_EngineCopy (snd (handleImages env up)) = [] \<and>
         (\<not> isl (fst (parseCreds env (SrcCreds up))) \<and>
          \<not> isl (fst (parseCreds env (DestCreds up))) \<longrightarrow>
            fst (handleImages env up) =
              (case alltransports_ParseImageName env (SrcImage up) of
                 Inl err \<Rightarrow> Some err
               | Inr srcRef \<Rightarrow>
                   (case alltransports_ParseImageName env (DestImage up) of
                      Inl err \<Rightarrow> Some err
                    | Inr destRef \<Rightarrow> None))) \<and>
         fst (handleImages env up) =
           (case fst (parseCreds env (SrcCreds up)) of
              Inl err \<Rightarrow> Some err
            | Inr srcCreds \<Rightarrow>
                (case fst (parseCreds env (DestCreds up)) of
                   Inl err \<Rightarrow> Some err
                 | Inr destCreds \<Rightarrow>
                     (case alltransports_ParseImageName env (SrcImage up) of
                        Inl err \<Rightarrow> Some err
                      | Inr srcRef \<Rightarrow>
                          (case alltransports_ParseImageName env (DestImage up) of
                             Inl err \<Rightarrow> Some err
                           | Inr destRef \<Rightarrow> None)))) \<and>
         ((RequestType event = RequestCreate \<or> RequestType event = RequestUpdate) \<and>
          up = fst (json_Unmarshal env (json_Marshal env (ResourceProperties event))) \<longrightarrow>
            snd (snd (fst (cfnHandler env event))) = fst (handleImages env up) \<and>
            snd (snd (fst (cfnHandler env event))) \<noteq> None \<and>
            filter is_EngineCopy (snd (cfnHandler env event)) = []) \<and>
         (up = fst (json_Unmarshal env (Configuration_UserParameters job)) \<longrightarrow>
            (\<exists>err. fst (handleImages env up) = Some err \<and>
               filter is_JobFailure (codePipelineHandler env job) =
                 [JobFailure (CodePipelineJob_ID job) (Error err) FailureTypeJobFailed]) \<and>
            filter is_JobSuccess (codePipelineHandler env job) = [] \<and>
            filter is_EngineCopy (codePipelineHandler env job) = [])"
proof -
  have failed: "fst (handleImages env up) \<noteq> None"
    using assms unfolding fst_handleImages
    by (auto simp: isl_def split: sum.splits option.splits)
  have no_copy: "filter is_EngineCopy (snd (handleImages env up)) = []"
    using assms unfolding snd_handleImages
    by (auto simp: parseCreds_no_EngineCopy isl_def split: sum.splits option.splits)
  have first_error: "fst (handleImages env up) =
           (case fst (parseCreds env (SrcCreds up)) of
              Inl err \<Rightarrow> Some err
            | Inr srcCreds \<Rightarrow>
                (case fst (parseCreds env (DestCreds up)) of
                   Inl err \<Rightarrow> Some err
                 | Inr destCreds \<Rightarrow>
                     (case alltransports_ParseImageName env (SrcImage up) of
                        Inl err \<Rightarrow> Some err
                      | Inr srcRef \<Rightarrow>
                          (case alltransports_ParseImageName env (DestImage up) of
                             Inl err \<Rightarrow> Some err
                           | Inr destRef \<Rightarrow> None))))"
    using assms unfolding fst_handleImages
    by (auto simp: isl_def split: sum.splits option.splits)
  have resolved: "\<not> isl (fst (parseCreds env (SrcCreds up))) \<and>
        \<not> isl (fst (parseCreds env (DestCreds up))) \<longrightarrow>
          fst (handleImages env up) =
            (case alltransports_ParseImageName env (SrcImage up) of
               Inl err \<Rightarrow> Some err
             | Inr srcRef \<Rightarrow>
                 (case alltransports_ParseImageName env (DestImage up) of
                    Inl err \<Rightarrow> Some err
                  | Inr destRef \<Rightarrow> None))"
    unfolding first_error by (auto simp: isl_def split: sum.splits)
  have provisioning:
    "(RequestType event = RequestCreate \<or> RequestType event = RequestUpdate) \<and>
     up = fst (json_Unmarshal env (json_Marshal env (ResourceProperties event))) \<longrightarrow>
       snd (snd (fst (cfnHandler env event))) = fst (handleImages env up) \<and>
       snd (snd (fst (cfnHandler env event))) \<noteq> None \<and>
       filter is_EngineCopy (snd (cfnHandler env event)) = []"
    using failed no_copy by (auto simp: cfnHandler_error cfnHandler_EngineCopy)
  have pipeline:
    "up = fst (json_Unmarshal env (Configuration_UserParameters job)) \<longrightarrow>
       (\<exists>err. fst (handleImages env up) = Some err \<and>
          filter is_JobFailure (codePipelineHandler env job) =
            [JobFailure (CodePipelineJob_ID job) (Error err) FailureTypeJobFailed]) \<and>
       filter is_JobSuccess (codePipelineHandler env job) = [] \<and>
       filter is_EngineCopy (codePipelineHandler env job) = []"
  proof
    assume decoded: "up = fst (json_Unmarshal env (Configuration_UserParameters job))"
    from failed obtain err where err: "fst (handleImages env up) = Some err"
      by (cases "fst (handleImages env up)") auto
    from err decoded
    have "fst (handleImages env (fst (json_Unmarshal env (Configuration_UserParameters job)))) =
        Some err"
      by simp
    from codePipelineHandler_JobFailure [OF this] err no_copy decoded
    show "(\<exists>err. fst (handleImages env up) = Some err \<and>
          filter is_JobFailure (codePipelineHandler env job) =
            [JobFailure (CodePipelineJob_ID job) (Error err) FailureTypeJobFailed]) \<and>
       filter is_JobSuccess (codePipelineHandler env job) = [] \<and>
       filter is_EngineCopy (codePipelineHandler env job) = []"
      by (simp add: codePipelineHandler_EngineCopy)
  qed
  from failed no_copy resolved first_error provisioning pipeline show ?thesis
    by (intro conjI)
qed

theorem handleImages_rejects_unparsed_reference_witness:
  "isl (alltransports_ParseImageName example_env (SrcImage (fst (example_Unmarshal ''ftp'')))) \<and>
   fst (handleImages example_env (fst (example_Unmarshal ''ftp''))) =
     Some (errorString ''Invalid image name ftp://host/path'') \<and>
   filter is_EngineCopy (snd (handleImages example_env (fst (example_Unmarshal ''ftp'')))) = [] \<and>
   isl (alltransports_ParseImageName example_env
          (SrcImage (fst (example_Unmarshal ''ftp-missing-dest-secret'')))) \<and>
   fst (handleImages example_env (fst (example_Unmarshal ''ftp-missing-dest-secret''))) =
     Some (SecretNotFound ''secret not found'') \<and>
   snd (snd (fst (cfnHandler example_env (cfn_event RequestCreate ''ftp'')))) =
     Some (errorString ''Invalid image name ftp://host/path'') \<and>
   filter is_EngineCopy (snd (cfnHandler example_env (cfn_event RequestCreate ''ftp''))) = [] \<and>
   filter is_JobFailure (codePipelineHandler example_env (job_event ''ftp'')) =
     [JobFailure ''job-1'' ''Invalid image name ftp://host/path'' ''JobFailed''] \<and>
   filter is_JobSuccess (codePipelineHandler example_env (job_event ''ftp'')) = [] \<and>
   filter is_EngineCopy (codePipelineHandler example_env (job_event ''ftp'')) = []"
proof -
  have src: "isl (alltransports_ParseImageName example_env
        (SrcImage (fst (example_Unmarshal ''ftp''))))"
    by (simp add: example_defs)
  have src': "isl (alltransports_ParseImageName example_env
        (SrcImage (fst (example_Unmarshal ''ftp-missing-dest-secret''))))"
    by (simp add: example_defs)
  have create: "RequestType (cfn_event RequestCreate ''ftp'') = RequestCreate \<or>
      RequestType (cfn_event RequestCreate ''ftp'') = RequestUpdate"
    by (simp add: cfn_event_def)
  have decoded: "fst (example_Unmarshal ''ftp'') =
      fst (json_Unmarshal example_env
             (json_Marshal example_env (ResourceProperties (cfn_event RequestCreate ''ftp''))))"
    by (simp add: example_env_def cfn_event_def)
  have decoded': "fst (example_Unmarshal ''ftp'') =
      fst (json_Unmarshal example_env (Configuration_UserParameters (job_event ''ftp'')))"
    by (simp add: example_env_def job_event_def)
  have resolved: "\<not> isl (fst (parseCreds example_env (SrcCreds (fst (example_Unmarshal ''ftp''))))) \<and>
      \<not> isl (fst (parseCreds example_env (DestCreds (fst (example_Unmarshal ''ftp'')))))"
    by (simp add: parseCreds_def example_defs)
  have parsed: "alltransports_ParseImageName example_env (SrcImage (fst (example_Unmarshal ''ftp''))) =
      Inl (errorString ''Invalid image name ftp://host/path'')"
    by (simp add: example_defs)
  have creds': "fst (parseCreds example_env
        (SrcCreds (fst (example_Unmarshal ''ftp-missing-dest-secret'')))) = Inr ''u:p'' \<and>
      fst (parseCreds example_env
        (DestCreds (fst (example_Unmarshal ''ftp-missing-dest-secret'')))) =
      Inl (SecretNotFound ''secret not found'')"
    by (simp add: parseCreds_def GetSecret_def example_defs)
  have job: "CodePipelineJob_ID (job_event ''ftp'') = ''job-1''"
    by (simp add: job_event_def)
  note ftp = handleImages_rejects_unparsed_reference
      [OF disjI1, OF src, of "cfn_event RequestCreate ''ftp''" "job_event ''ftp''"]
  note ftp' = handleImages_rejects_unparsed_reference
      [OF disjI1, OF src', of "cfn_event RequestCreate ''ftp''" "job_event ''ftp''"]
  have first: "fst (handleImages example_env (fst (example_Unmarshal ''ftp''))) =
      Some (errorString ''Invalid image name ftp://host/path'')"
    using ftp resolved parsed by simp
  have no_copy: "filter is_EngineCopy
      (snd (handleImages example_env (fst (example_Unmarshal ''ftp'')))) = []"
    using ftp by blast
  have first': "fst (handleImages example_env (fst (example_Unmarshal ''ftp-missing-dest-secret''))) =
      Some (SecretNotFound ''secret not found'')"
    using ftp' creds' by simp
  have provisioning: "snd (snd (fst (cfnHandler example_env (cfn_event RequestCreate ''ftp'')))) =
      fst (handleImages example_env (fst (example_Unmarshal ''ftp''))) \<and>
      filter is_EngineCopy (snd (cfnHandler example_env (cfn_event RequestCreate ''ftp''))) = []"
    using ftp create decoded by blast
  have pipeline: "(\<exists>err. fst (handleImages example_env (fst (example_Unmarshal ''ftp''))) = Some err \<and>
        filter is_JobFailure (codePipelineHandler example_env (job_event ''ftp'')) =
          [JobFailure (CodePipelineJob_ID (job_event ''ftp'')) (Error err) FailureTypeJobFailed]) \<and>
      filter is_JobSuccess (codePipelineHandler example_env (job_event ''ftp'')) = [] \<and>
      filter is_EngineCopy (codePipelineHandler example_env (job_event ''ftp'')) = []"
    using ftp decoded' by blast
  then obtain err where err: "fst (handleImages example_env (fst (example_Unmarshal ''ftp''))) = Some err"
    and reported: "filter is_JobFailure (codePipelineHandler example_env (job_event ''ftp'')) =
          [JobFailure (CodePipelineJob_ID (job_event ''ftp'')) (Error err) FailureTypeJobFailed]"
    by blast
  from err first have "err = errorString ''Invalid image name ftp://host/path''"
    by simp
  with reported job
  have failure: "filter is_JobFailure (codePipelineHandler example_env (job_event ''ftp'')) =
     [JobFailure ''job-1'' ''Invalid image name ftp://host/path'' ''JobFailed'']"
    by (simp add: FailureTypeJobFailed_def)
  from src src' first first' no_copy provisioning pipeline failure show ?thesis
    by simp
qed

subsection \<open>Dispatch\<close>

text \<open>No handler reads the process environment, and none depends on it.\<close>

lemma cfnHandler_no_EnvRead: "filter is_EnvRead (snd (cfnHandler env event)) = []"
  by (simp add: cfnHandler_def Let_def handleImages_no_EnvRead)

lemma codePipelineHandler_no_EnvRead: "filter is_EnvRead (codePipelineHandler env event) = []"
  by (simp add: codePipelineHandler_def Let_def handleImages_no_EnvRead split: option.splits)

lemma lambda_Start_filter_empty:
  "(\<And>payload. filter P (handler payload) = []) \<Longrightarrow>
   filter P (lambda_Start handler payloads) = []"
  by (induction payloads) (simp_all add: lambda_Start_def)

lemma customResource_no_EnvRead: "filter is_EnvRead (customResource env payloads) = []"
  unfolding customResource_def
  by (rule lambda_Start_filter_empty) (simp add: cfnHandler_no_EnvRead split: option.splits)

lemma codePipeline_no_EnvRead: "filter is_EnvRead (codePipeline env payloads) = []"
  unfolding codePipeline_def
  by (rule lambda_Start_filter_empty) (simp add: codePipelineHandler_no_EnvRead split: option.splits)

lemma parseCreds_os_Getenv:
  "parseCreds (env\<lparr>os_Getenv := g\<rparr>) creds = parseCreds env creds"
  by (simp add: parseCreds_def GetSecret_def split_secret_def cong: sum.case_cong if_cong)

lemma handleImages_os_Getenv:
  "handleImages (env\<lparr>os_Getenv := g\<rparr>) up = handleImages env up"
  by (simp add: handleImages_def step_defs parseCreds_os_Getenv)

lemma cfnHandler_os_Getenv:
  "cfnHandler (env\<lparr>os_Getenv := g\<rparr>) event = cfnHandler env event"
  by (simp add: cfnHandler_def Let_def handleImages_os_Getenv)

lemma codePipelineHandler_os_Getenv:
  "codePipelineHandler (env\<lparr>os_Getenv := g\<rparr>) event = codePipelineHandler env event"
  by (simp add: codePipelineHandler_def Let_def handleImages_os_Getenv cong: option.case_cong)

text \<open>
  C8, as stated, fails: the flag is not read once per invocation. A process that serves
  two invocations (one copy that succeeds, one that fails, each reported to the job-control
  API) reads \<open>INVOKER\<close> once.
\<close>

theorem two_invocations_one_flag_read:
  "filter is_EnvRead (main example_env [''scenario'', ''broken'']) = [EnvRead ''INVOKER''] \<and>
   filter reported (main example_env [''scenario'', ''broken'']) =
     [JobSuccess ''job-1'' ''Copied image docker://repo/app:v1 to docker://other/app:v1'',
      JobFailure ''job-1'' ''copy image failed: manifest unknown'' ''JobFailed'']"
  by (simp add: main_def codePipeline_def lambda_Start_def codePipelineHandler_def Let_def
      fst_handleImages snd_handleImages parseCreds_def reported_def example_defs)

text \<open>
  C8, amended. The flag \<open>INVOKER\<close> is read exactly once in the run of a process, by
  \<open>main\<close> before any invocation is served, whatever the number of invocations. Its
  value alone selects the flow: every invocation of the run is served by the pipeline flow
  when it is \<open>CODEPIPELINE\<close> and by the provisioning flow otherwise, and the rest of the
  process environment has no influence on the run.
\<close>

theorem main_reads_flag_once_per_run:
  "filter is_EnvRead (main env payloads) = [EnvRead ''INVOKER''] \<and>
   (os_Getenv env ''INVOKER'' = ''CODEPIPELINE'' \<longrightarrow>
      main env payloads = EnvRead ''INVOKER'' # codePipeline env payloads) \<and>
   (os_Getenv env ''INVOKER'' \<noteq> ''CODEPIPELINE'' \<longrightarrow>
      main env payloads = EnvRead ''INVOKER'' # customResource env payloads) \<and>
   (g ''INVOKER'' = os_Getenv env ''INVOKER'' \<longrightarrow>
      main (env\<lparr>os_Getenv := g\<rparr>) payloads = main env payloads)"
proof (intro conjI impI)
  show "filter is_EnvRead (main env payloads) = [EnvRead ''INVOKER'']"
    by (simp add: main_def Let_def customResource_no_EnvRead codePipeline_no_EnvRead)
  show "main env payloads = EnvRead ''INVOKER'' # codePipeline env payloads"
    if "os_Getenv env ''INVOKER'' = ''CODEPIPELINE''"
    using that by (simp add: main_def Let_def)
  show "main env payloads = EnvRead ''INVOKER'' # customResource env payloads"
    if "os_Getenv env ''INVOKER'' \<noteq> ''CODEPIPELINE''"
    using that by (simp add: main_def Let_def)
  show "main (env\<lparr>os_Getenv := g\<rparr>) payloads = main env payloads"
    if "g ''INVOKER'' = os_Getenv env ''INVOKER''"
    using that
    by (simp add: main_def Let_def customResource_def codePipeline_def
        cfnHandler_os_Getenv codePipelineHandler_os_Getenv cong: option.case_cong)
qed

theorem main_reads_flag_once_per_run_witness:
  "os_Getenv example_env ''INVOKER'' = ''CODEPIPELINE'' \<and>
   main example_env [''scenario'', ''broken''] =
     EnvRead ''INVOKER'' # codePipeline example_env [''scenario'', ''broken''] \<and>
   filter is_EnvRead (main example_env [''scenario'', ''broken'']) = [EnvRead ''INVOKER''] \<and>
   main (example_env\<lparr>os_Getenv := (\<lambda>name. ''CODEPIPELINE'')\<rparr>) [''scenario'', ''broken''] =
     main example_env [''scenario'', ''broken'']"
proof -
  have flag: "os_Getenv example_env ''INVOKER'' = ''CODEPIPELINE''"
    by (simp add: example_env_def)
  show ?thesis
    using flag
      main_reads_flag_once_per_run
        [of example_env "[''scenario'', ''broken'']" "\<lambda>name. ''CODEPIPELINE''"]
    by (simp add: codePipeline_no_EnvRead)
qed

subsection \<open>Decoding\<close>

lemma parseCreds_json_Unmarshal:
  "parseCreds (env\<lparr>json_Unmarshal := decoder\<rparr>) creds = parseCreds env creds"
  by (simp add: parseCreds_def GetSecret_def split_secret_def cong: sum.case_cong if_cong)

lemma handleImages_json_Unmarshal:
  "handleImages (env\<lparr>json_Unmarshal := decoder\<rparr>) up = handleImages env up"
  by (simp add: handleImages_def step_defs parseCreds_json_Unmarshal)

text \<open>
  C9, as stated, fails: nothing is rejected at the decode step. On a Create event whose
  payload the decoder fails on, leaving the zero value, cfnHandler goes on to handleImages,
  which parses the empty source reference and fails there, with the parser's error. So
  does a pipeline job whose payload decodes without error but holds no field. A pipeline
  job on whose payload the decoder reports a type error for one field, having filled the
  others, is copied and reported as a success.
\<close>

theorem undecodable_payload_reaches_handleImages:
  "json_Unmarshal example_env ''garbage'' =
     (zero_UserParameters, Some (errorString ''unexpected end of JSON input'')) \<and>
   snd (snd (fst (cfnHandler example_env (cfn_event RequestCreate ''garbage'')))) =
     Some (errorString ''Invalid image name '') \<and>
   filter is_RefParse (snd (cfnHandler example_env (cfn_event RequestCreate ''garbage''))) =
     [RefParse []] \<and>
   json_Unmarshal example_env ''{}'' = (zero_UserParameters, None) \<and>
   filter is_RefParse (codePipelineHandler example_env (job_event ''{}'')) = [RefParse []] \<and>
   filter reported (codePipelineHandler example_env (job_event ''{}'')) =
     [JobFailure ''job-1'' ''Invalid image name '' ''JobFailed''] \<and>
   snd (json_Unmarshal example_env ''type-mismatch'') =
     Some (errorString ''json: cannot unmarshal number into Go struct field'') \<and>
   filter is_EngineCopy (codePipelineHandler example_env (job_event ''type-mismatch'')) =
     [EngineCopy ''docker://other/app:v1'' ''docker://repo/app:v1''
        (''docker://other/app:v1'', []) (''docker://repo/app:v1'', [])] \<and>
   filter reported (codePipelineHandler example_env (job_event ''type-mismatch'')) =
     [JobSuccess ''job-1'' ''Copied image docker://repo/app:v1 to docker://other/app:v1'']"
  by (simp add: cfnHandler_def codePipelineHandler_def Let_def reported_def
      fst_handleImages snd_handleImages parseCreds_def example_defs)

text \<open>
  C9, amended. On every invocation that reaches decoding (a Create or Update event, and
  every pipeline job) the payload is decoded into the \<open>UserParameters\<close> structure at
  the boundary, and handleImages runs on that structure and sees nothing else of the
  payload. No field is validated and the decoder's error is dropped: both handlers behave
  the same whatever error the decoder reports. An event of any other request type (Delete
  among them) returns before decoding, with no error and the one log line.
\<close>

theorem decode_error_is_dropped:
  assumes "\<forall>payload. fst (decoder payload) = fst (json_Unmarshal env payload)"
  shows "cfnHandler (env\<lparr>json_Unmarshal := decoder\<rparr>) event = cfnHandler env event \<and>
         codePipelineHandler (env\<lparr>json_Unmarshal := decoder\<rparr>) job = codePipelineHandler env job \<and>
         (RequestType event = RequestCreate \<or> RequestType event = RequestUpdate \<longrightarrow>
            cfnHandler env event =
              ((PhysicalResourceID event, Map.empty,
                fst (handleImages env
                       (fst (json_Unmarshal env (json_Marshal env (ResourceProperties event)))))),
               [LogLine (''Event: '' @ Dumps_cfn env event),
                LogLine (''Event: '' @ Dumps_cfn env event)] @
               snd (handleImages env
                      (fst (json_Unmarshal env (json_Marshal env (ResourceProperties event))))))) \<and>
         (RequestType event \<noteq> RequestCreate \<and> RequestType event \<noteq> RequestUpdate \<longrightarrow>
            cfnHandler env event =
              ((PhysicalResourceID event, Map.empty, None),
               [LogLine (''Event: '' @ Dumps_cfn env event)])) \<and>
         (\<exists>rest. codePipelineHandler env job =
            [LogLine (''Event log: '' @ Dumps_job env job),
             LogLine (''parameters obtained: '' @
                      Sprint_v env (fst (json_Unmarshal env (Configuration_UserParameters job))))] @
            snd (handleImages env (fst (json_Unmarshal env (Configuration_UserParameters job)))) @
            rest)"
proof (intro conjI impI)
  show "cfnHandler (env\<lparr>json_Unmarshal := decoder\<rparr>) event = cfnHandler env event"
    using assms by (simp add: cfnHandler_def Let_def handleImages_json_Unmarshal)
  show "codePipelineHandler (env\<lparr>json_Unmarshal := decoder\<rparr>) job = codePipelineHandler env job"
    using assms
    by (simp add: codePipelineHandler_def Let_def handleImages_json_Unmarshal
        cong: option.case_cong)
  show "cfnHandler env event =
          ((PhysicalResourceID event, Map.empty,
            fst (handleImages env
                   (fst (json_Unmarshal env (json_Marshal env (ResourceProperties event)))))),
           [LogLine (''Event: '' @ Dumps_cfn env event),
            LogLine (''Event: '' @ Dumps_cfn env event)] @
           snd (handleImages env
                  (fst (json_Unmarshal env (json_Marshal env (ResourceProperties event))))))"
    if "RequestType event = RequestCreate \<or> RequestType event = RequestUpdate"
    using that
    by (auto simp: cfnHandler_def Let_def RequestCreate_def RequestUpdate_def RequestDelete_def)
  show "cfnHandler env event =
          ((PhysicalResourceID event, Map.empty, None),
           [LogLine (''Event: '' @ Dumps_cfn env event)])"
    if "RequestType event \<noteq> RequestCreate \<and> RequestType event \<noteq> RequestUpdate"
    using that by (simp add: cfnHandler_def Let_def)
  show "\<exists>rest. codePipelineHandler env job =
          [LogLine (''Event log: '' @ Dumps_job env job),
           LogLine (''parameters obtained: '' @
                    Sprint_v env (fst (json_Unmarshal env (Configuration_UserParameters job))))] @
          snd (handleImages env (fst (json_Unmarshal env (Configuration_UserParameters job)))) @
          rest"
    by (simp add: codePipelineHandler_def Let_def split: option.splits)
qed

theorem decode_error_is_dropped_witness:
  "(\<forall>payload. fst (fst (example_Unmarshal payload), None :: error option) =
                fst (json_Unmarshal example_env payload)) \<and>
   snd (json_Unmarshal example_env ''garbage'') \<noteq> None \<and>
   cfnHandler (example_env\<lparr>json_Unmarshal := (\<lambda>payload. (fst (example_Unmarshal payload), None))\<rparr>)
     (cfn_event RequestCreate ''garbage'') =
   cfnHandler example_env (cfn_event RequestCreate ''garbage'') \<and>
   codePipelineHandler
     (example_env\<lparr>json_Unmarshal := (\<lambda>payload. (fst (example_Unmarshal payload), None))\<rparr>)
     (job_event ''garbage'') =
   codePipelineHandler example_env (job_event ''garbage'') \<and>
   snd (cfnHandler example_env (cfn_event RequestCreate ''garbage'')) =
     [LogLine ''Event: Create garbage'', LogLine ''Event: Create garbage''] @
     snd (handleImages example_env zero_UserParameters)"
proof -
  have same: "\<forall>payload. fst ((\<lambda>payload. (fst (example_Unmarshal payload), None)) payload) =
      fst (json_Unmarshal example_env payload)"
    by (simp add: example_env_def)
  have create: "RequestType (cfn_event RequestCreate ''garbage'') = RequestCreate \<or>
      RequestType (cfn_event RequestCreate ''garbage'') = RequestUpdate"
    by (simp add: cfn_event_def)
  have failed: "snd (json_Unmarshal example_env ''garbage'') \<noteq> None"
    by (simp add: example_env_def example_Unmarshal_def)
  have decoded: "fst (json_Unmarshal example_env
      (json_Marshal example_env (ResourceProperties (cfn_event RequestCreate ''garbage'')))) =
      zero_UserParameters"
    by (simp add: example_env_def example_Unmarshal_def cfn_event_def)
  have dumped: "Dumps_cfn example_env (cfn_event RequestCreate ''garbage'') = ''Create garbage''"
    by (simp add: example_env_def cfn_event_def RequestCreate_def)
  show ?thesis
    using same create failed decoded dumped
      decode_error_is_dropped
        [OF same, of "cfn_event RequestCreate ''garbage''" "job_event ''garbage''"]
    by simp
qed

subsection \<open>The pipeline handler always reports\<close>



end
